theory Spec2Isabelle
  imports Complex_Main
begin

section \<open>Fee regulation in UMA units: the scale and the P1/P2 split\<close>

text \<open>
  The program \<^verbatim>\<open>honorarios.py\<close> computes attorney fees in UMA units. Its numbers are
  Python \<^verbatim>\<open>float\<close>s. They are modelled here by the real numbers they denote: every
  comparison of the source is the comparison of reals, and every arithmetic operation is
  the exact operation; a decimal literal such as \<^verbatim>\<open>0.22\<close> is the real number 22/100.
  Equations between results written with the same operations carry over to doubles.
  Where a property depends on rounding, as the monotonicity of the fee does, the
  computation is modelled a second time on IEEE doubles (\<open>calcular_uma_p1p2_doble\<close>
  below). Infinities and NaN are outside both models.
\<close>

subsection \<open>The scale (art. 21)\<close>

text \<open>The dataclass \<^verbatim>\<open>Tramo\<close>; \<^verbatim>\<open>max_uma\<close> is \<^verbatim>\<open>Optional[float]\<close>.\<close>

record Tramo =
  min_uma :: real
  max_uma :: "real option"
  pct_min :: real
  pct_max :: real

definition ESCALA :: "Tramo list" where
  "ESCALA =
    [\<lparr>min_uma = 0,   max_uma = Some 15,  pct_min = 0.22, pct_max = 0.33\<rparr>,
     \<lparr>min_uma = 16,  max_uma = Some 45,  pct_min = 0.20, pct_max = 0.26\<rparr>,
     \<lparr>min_uma = 46,  max_uma = Some 90,  pct_min = 0.18, pct_max = 0.24\<rparr>,
     \<lparr>min_uma = 91,  max_uma = Some 150, pct_min = 0.17, pct_max = 0.22\<rparr>,
     \<lparr>min_uma = 151, max_uma = Some 450, pct_min = 0.15, pct_max = 0.20\<rparr>,
     \<lparr>min_uma = 451, max_uma = Some 750, pct_min = 0.13, pct_max = 0.17\<rparr>,
     \<lparr>min_uma = 751, max_uma = None,     pct_min = 0.12, pct_max = 0.15\<rparr>]"

text \<open>
  The test that the body of the loop of \<^verbatim>\<open>buscar_tramo\<close> makes on one bracket:
  \<^verbatim>\<open>uma_total >= t.min_uma\<close> for the bracket without a maximum,
  \<^verbatim>\<open>t.min_uma <= uma_total <= t.max_uma\<close> otherwise.
\<close>

definition contiene :: "Tramo \<Rightarrow> real \<Rightarrow> bool" where
  "contiene t uma_total =
     (case max_uma t of
        None \<Rightarrow> uma_total \<ge> min_uma t
      | Some m \<Rightarrow> min_uma t \<le> uma_total \<and> uma_total \<le> m)"

text \<open>
  The loop \<^verbatim>\<open>for i, t in enumerate(ESCALA)\<close>, from index \<open>i\<close> on: the first bracket
  that passes the test is returned with its index; \<open>None\<close> when the loop ends without
  a \<^verbatim>\<open>return\<close>.
\<close>

fun buscar_desde :: "nat \<Rightarrow> Tramo list \<Rightarrow> real \<Rightarrow> (nat \<times> Tramo) option" where
  "buscar_desde i [] uma_total = None"
| "buscar_desde i (t # ts) uma_total =
     (if contiene t uma_total then Some (i, t) else buscar_desde (Suc i) ts uma_total)"

text \<open>\<^verbatim>\<open>buscar_tramo\<close>: the loop, then the fallback \<^verbatim>\<open>return 0, ESCALA[0]\<close>.\<close>

definition buscar_tramo :: "real \<Rightarrow> nat \<times> Tramo" where
  "buscar_tramo uma_total =
     (case buscar_desde 0 ESCALA uma_total of
        Some r \<Rightarrow> r
      | None \<Rightarrow> (0, ESCALA ! 0))"

subsection \<open>The P1/P2 computation\<close>

text \<open>The dictionary \<^verbatim>\<open>det\<close> that \<^verbatim>\<open>calcular_uma_p1p2\<close> returns beside the total.\<close>

record detalle =
  tramo_actual :: Tramo
  p1_uma :: real
  p2_uma :: real
  pct_prev_max :: real
  pct_act_base_min :: real
  pct_p1_eff :: real
  pct_p2_eff :: real
  res_a_uma :: real
  res_b_uma :: real

text \<open>
  Lines 75 to 81: the pair \<^verbatim>\<open>(prev_max_uma, pct_prev)\<close> chosen from the index of the
  current bracket. The read \<^verbatim>\<open>ESCALA[idx - 1]\<close> happens only for \<open>idx \<noteq> 0\<close>.
\<close>

definition tramo_previo :: "nat \<Rightarrow> real \<times> real" where
  "tramo_previo idx =
     (if idx = 0 then (0, 0)
      else
        let tramo_prev = ESCALA ! (idx - 1)
        in ((case max_uma tramo_prev of Some m \<Rightarrow> m | None \<Rightarrow> 0), pct_max tramo_prev))"

text \<open>
  Lines 88 to 94: \<^verbatim>\<open>mult\<close> starts at 1 and is multiplied, in this order, by 1.4, 0.5
  and 0.9 for the flags that are set.
\<close>

definition multiplicador :: "bool \<Rightarrow> bool \<Rightarrow> bool \<Rightarrow> real" where
  "multiplicador es_apoderado mitad_art41 aplicar_menos10 =
     (let mult = 1;
          mult = (if es_apoderado then mult * 1.4 else mult);
          mult = (if mitad_art41 then mult * 0.5 else mult);
          mult = (if aplicar_menos10 then mult * 0.9 else mult)
      in mult)"

definition calcular_uma_p1p2 :: "real \<Rightarrow> bool \<Rightarrow> bool \<Rightarrow> bool \<Rightarrow> real \<times> detalle" where
  "calcular_uma_p1p2 uma_total es_apoderado mitad_art41 aplicar_menos10 =
     (let (idx, tramo_act) = buscar_tramo uma_total;
          (prev_max_uma, pct_prev) = tramo_previo idx;
          p1 = min uma_total prev_max_uma;
          p2 = max 0 (uma_total - p1);
          pct_act_base = pct_min tramo_act;
          mult = multiplicador es_apoderado mitad_art41 aplicar_menos10;
          p1_eff = pct_prev * mult;
          p2_eff = pct_act_base * mult;
          res_a = p1 * p1_eff;
          res_b = p2 * p2_eff;
          total = res_a + res_b
      in (total,
          \<lparr>tramo_actual = tramo_act, p1_uma = p1, p2_uma = p2,
           pct_prev_max = pct_prev, pct_act_base_min = pct_act_base,
           pct_p1_eff = p1_eff, pct_p2_eff = p2_eff,
           res_a_uma = res_a, res_b_uma = res_b\<rparr>))"

subsection \<open>The main computation of the form\<close>

text \<open>
  The exceptions that \<^verbatim>\<open>RegulacionUMA.calcular\<close> can raise inside its \<^verbatim>\<open>try\<close> block.
  Both input checks raise \<^verbatim>\<open>ValueError\<close>, told apart by their message; the messages are
  named here instead of spelled out:
  \<^item> \<open>EntradaVacia\<close>: \<^verbatim>\<open>"Entrada vacia."\<close>, from \<^verbatim>\<open>parse_float_robusto\<close>;
  \<^item> \<open>FloatInvalido\<close>: the message of \<^verbatim>\<open>float(s)\<close> on a text it cannot read;
  \<^item> \<open>FechaCorteNoAnterior\<close>: \<^verbatim>\<open>"La fecha de corte debe ser ANTERIOR a la fecha de calculo."\<close>;
  \<^item> \<open>UmaCalcNoPositiva\<close>:
    \<^verbatim>\<open>"Ingrese un valor de UMA a la fecha de calculo mayor que 0."\<close>.

  \<^verbatim>\<open>ZeroDivisionError\<close> is what Python's float division raises on a zero divisor.
\<close>

datatype mensaje = EntradaVacia | FloatInvalido | FechaCorteNoAnterior | UmaCalcNoPositiva

datatype error = ValueError mensaje | ZeroDivisionError

text \<open>
  The text of a \<^verbatim>\<open>QLineEdit\<close>, up to what \<^verbatim>\<open>parse_float_robusto\<close> makes of it: empty
  after \<^verbatim>\<open>strip()\<close>, not readable by \<^verbatim>\<open>float\<close> once the separators are normalised, or
  the number read. The string handling itself is not modelled.
\<close>

datatype campo = Vacio | Ilegible | Numero real

fun parse_float_robusto :: "campo \<Rightarrow> error + real" where
  "parse_float_robusto Vacio = Inl (ValueError EntradaVacia)"
| "parse_float_robusto Ilegible = Inl (ValueError FloatInvalido)"
| "parse_float_robusto (Numero x) = Inr x"

text \<open>A \<^verbatim>\<open>datetime.date\<close>, as its proleptic Gregorian ordinal: comparison is the same.\<close>

type_synonym fecha = int

text \<open>The widgets that \<^verbatim>\<open>calcular\<close> reads.\<close>

record formulario =
  edt_cap_planilla :: campo
  edt_int_planilla :: campo
  dt_corte :: fecha
  dt_calculo :: fecha
  edt_to :: campo
  edt_tm :: campo
  edt_uma_calc :: campo
  chk_apoderado :: bool
  chk_mitad41 :: bool
  chk_sin_exc :: bool
  edt_uma_pago :: campo

text \<open>The values that \<^verbatim>\<open>calcular\<close> has computed when it renders the result.\<close>

record salida =
  desde :: fecha
  hasta_incl :: fecha
  factor :: real
  interes_adic :: real
  base_reg :: real
  uma_total_calc :: real
  honor_uma :: real
  det :: detalle
  pesos_pago :: "real option"

text \<open>
  Lines 259 to 265: the payment-date value is read only when its field is not blank, and
  used only when positive.
\<close>

definition pesos_al_pago :: "campo \<Rightarrow> real \<Rightarrow> error + real option" where
  "pesos_al_pago txt honor =
     (if txt = Vacio then Inr None
      else
        case parse_float_robusto txt of
          Inl e \<Rightarrow> Inl e
        | Inr uma_pago \<Rightarrow> Inr (if uma_pago > 0 then Some (honor * uma_pago) else None))"

text \<open>
  Sequencing inside the \<^verbatim>\<open>try\<close> block: an exception raised by a statement skips
  every statement after it.
\<close>

definition luego :: "error + 'a \<Rightarrow> ('a \<Rightarrow> error + 'b) \<Rightarrow> error + 'b" where
  "luego r k = (case r of Inl e \<Rightarrow> Inl e | Inr x \<Rightarrow> k x)"

text \<open>
  \<^verbatim>\<open>RegulacionUMA.calcular\<close>, lines 222 to 265, with its statements in the order of the
  source. \<open>Inl e\<close> is the exception \<open>e\<close> reaching the \<^verbatim>\<open>except\<close> clause, which shows a
  message box and leaves the result pane untouched; \<open>Inr\<close> carries the values rendered.
\<close>

definition calcular :: "formulario \<Rightarrow> error + salida" where
  "calcular f =
     luego (parse_float_robusto (edt_cap_planilla f)) (\<lambda>cap_planilla.
     luego (parse_float_robusto (edt_int_planilla f)) (\<lambda>int_planilla.
       (let corte = dt_corte f; fcalc = dt_calculo f in
        if corte \<ge> fcalc then Inl (ValueError FechaCorteNoAnterior)
        else
          (let total_planilla = cap_planilla + int_planilla in
           luego (parse_float_robusto (edt_to f)) (\<lambda>t_o.
           luego (parse_float_robusto (edt_tm f)) (\<lambda>t_m.
             if 100 + t_o = 0 then Inl ZeroDivisionError
             else
               (let fac = ((100 + t_m) / (100 + t_o)) - 1;
                    adic = cap_planilla * fac;
                    base = total_planilla + adic
                in
                luego (parse_float_robusto (edt_uma_calc f)) (\<lambda>uma_calc_val.
                  if uma_calc_val \<le> 0 then Inl (ValueError UmaCalcNoPositiva)
                  else
                    (let uma_total = base / uma_calc_val;
                         aplicar_menos10 = chk_sin_exc f;
                         (honor, d) = calcular_uma_p1p2 uma_total (chk_apoderado f)
                                        (chk_mitad41 f) aplicar_menos10
                     in
                     luego (pesos_al_pago (edt_uma_pago f) honor) (\<lambda>pesos.
                       Inr \<lparr>desde = corte + 1, hasta_incl = fcalc, factor = fac,
                            interes_adic = adic, base_reg = base,
                            uma_total_calc = uma_total, honor_uma = honor, det = d,
                            pesos_pago = pesos\<rparr>))))))))))"

text \<open>
  The inputs that the placeholders of the form suggest (15.000.000,00; 5.000.000,00; 62,15;
  74,80; 20.567,79), with the three boxes checked as the form starts, a cut-off date of
  1 January 2000 and a calculation date of 1 January 2025, and no payment-date value.
\<close>

definition ejemplo :: formulario where
  "ejemplo =
     \<lparr>edt_cap_planilla = Numero 15000000, edt_int_planilla = Numero 5000000,
      dt_corte = 730120, dt_calculo = 739252,
      edt_to = Numero 62.15, edt_tm = Numero 74.80, edt_uma_calc = Numero 20567.79,
      chk_apoderado = True, chk_mitad41 = True, chk_sin_exc = True,
      edt_uma_pago = Vacio\<rparr>"

subsection \<open>The P1/P2 computation on doubles\<close>

text \<open>
  Where a property depends on rounding, the arithmetic of \<^verbatim>\<open>calcular_uma_p1p2\<close> is taken
  as Python performs it: every \<^verbatim>\<open>float\<close> is an IEEE 754 binary64 number, and every
  operation returns the double nearest to the exact result, a tie going to the even
  significand.

  \<open>redondeo_par\<close> is the integer nearest to a real, ties to even. \<open>exponente x\<close> is the
  exponent of the last bit of the double format at the magnitude of \<open>x\<close>: 52 below the
  leading bit, and never below -1074, where the subnormal numbers sit. \<open>redondear x\<close>
  is the double nearest to \<open>x\<close>, with no upper limit: overflow to infinity is not
  modelled. On a non-negative double \<open>t\<close> no result of \<^verbatim>\<open>calcular_uma_p1p2\<close> exceeds
  \<open>t + 1500\<close> (lemma \<open>calcular_uma_p1p2_doble_cota\<close>), so none overflows for totals up
  to \<open>10 ^ 308\<close>. The total passed in is taken to be a double, as every Python float is.
\<close>

definition redondeo_par :: "real \<Rightarrow> int" where
  "redondeo_par x =
     (let n = \<lfloor>x\<rfloor>; r = x - of_int n
      in if r < 1 / 2 then n else if 1 / 2 < r then n + 1 else if even n then n else n + 1)"

definition exponente :: "real \<Rightarrow> int" where
  "exponente x = max (\<lfloor>log 2 \<bar>x\<bar>\<rfloor> - 52) (- 1074)"

definition redondear :: "real \<Rightarrow> real" where
  "redondear x =
     (if x = 0 then 0
      else of_int (redondeo_par (x / 2 powr of_int (exponente x))) * 2 powr of_int (exponente x))"

text \<open>
  Lines 88 to 94 on doubles: the literals \<^verbatim>\<open>1.4\<close>, \<^verbatim>\<open>0.5\<close> and \<^verbatim>\<open>0.9\<close> are the doubles
  nearest to them, and each \<^verbatim>\<open>mult *= ...\<close> rounds.
\<close>

definition multiplicador_doble :: "bool \<Rightarrow> bool \<Rightarrow> bool \<Rightarrow> real" where
  "multiplicador_doble es_apoderado mitad_art41 aplicar_menos10 =
     (let mult = 1;
          mult = (if es_apoderado then redondear (mult * redondear 1.4) else mult);
          mult = (if mitad_art41 then redondear (mult * redondear 0.5) else mult);
          mult = (if aplicar_menos10 then redondear (mult * redondear 0.9) else mult)
      in mult)"

text \<open>
  \<^verbatim>\<open>calcular_uma_p1p2\<close> on doubles. The ends of the brackets are integers that doubles
  hold exactly, so the lookup and the previous maximum are those of the exact model; the
  rates of the table are the doubles nearest to its decimal literals; \<^verbatim>\<open>min\<close> and
  \<^verbatim>\<open>max\<close> select one of their arguments and do not round; the subtraction, the four
  products and the sum round.
\<close>

definition calcular_uma_p1p2_doble :: "real \<Rightarrow> bool \<Rightarrow> bool \<Rightarrow> bool \<Rightarrow> real \<times> detalle" where
  "calcular_uma_p1p2_doble uma_total es_apoderado mitad_art41 aplicar_menos10 =
     (let (idx, tramo_act) = buscar_tramo uma_total;
          (prev_max_uma, pct_prev_lit) = tramo_previo idx;
          pct_prev = redondear pct_prev_lit;
          p1 = min uma_total prev_max_uma;
          p2 = max 0 (redondear (uma_total - p1));
          pct_act_base = redondear (pct_min tramo_act);
          mult = multiplicador_doble es_apoderado mitad_art41 aplicar_menos10;
          p1_eff = redondear (pct_prev * mult);
          p2_eff = redondear (pct_act_base * mult);
          res_a = redondear (p1 * p1_eff);
          res_b = redondear (p2 * p2_eff);
          total = redondear (res_a + res_b)
      in (total,
          \<lparr>tramo_actual = tramo_act, p1_uma = p1, p2_uma = p2,
           pct_prev_max = pct_prev, pct_act_base_min = pct_act_base,
           pct_p1_eff = p1_eff, pct_p2_eff = p2_eff,
           res_a_uma = res_a, res_b_uma = res_b\<rparr>))"

section \<open>Properties of the scale and of the bracket lookup\<close>

lemma multiplicador_pos: "0 < multiplicador a b c"
  by (simp add: multiplicador_def)

text \<open>The lookup, read off the table: which index and bracket each range of totals gets.\<close>

lemma buscar_tramo_rangos:
  "buscar_tramo t =
     (if 0 \<le> t \<and> t \<le> 15 then (0, ESCALA ! 0)
      else if 16 \<le> t \<and> t \<le> 45 then (1, ESCALA ! 1)
      else if 46 \<le> t \<and> t \<le> 90 then (2, ESCALA ! 2)
      else if 91 \<le> t \<and> t \<le> 150 then (3, ESCALA ! 3)
      else if 151 \<le> t \<and> t \<le> 450 then (4, ESCALA ! 4)
      else if 451 \<le> t \<and> t \<le> 750 then (5, ESCALA ! 5)
      else if 751 \<le> t then (6, ESCALA ! 6)
      else (0, ESCALA ! 0))"
  by (simp add: buscar_tramo_def ESCALA_def contiene_def)

lemma buscar_tramo_lt: "fst (buscar_tramo t) < length ESCALA"
  by (simp add: buscar_tramo_rangos) (simp add: ESCALA_def)

lemma buscar_tramo_nth: "snd (buscar_tramo t) = ESCALA ! fst (buscar_tramo t)"
  by (simp add: buscar_tramo_rangos)

lemma pct_min_pos: "0 < pct_min (snd (buscar_tramo t))"
  by (simp add: buscar_tramo_rangos ESCALA_def)

lemma pct_min_lt_max: "pct_min (snd (buscar_tramo t)) < pct_max (snd (buscar_tramo t))"
  by (simp add: buscar_tramo_rangos ESCALA_def)

text \<open>
  The ends of the brackets: ascending, each maximum below the next minimum, and only the
  last bracket without a maximum.
\<close>

lemma escala_extremos:
  "map min_uma ESCALA = [0, 16, 46, 91, 151, 451, 751] \<and>
   map max_uma ESCALA = [Some 15, Some 45, Some 90, Some 150, Some 450, Some 750, None]"
  by (simp add: ESCALA_def)

text \<open>A total that some bracket contains is in that bracket only, and the lookup returns it.\<close>

lemma buscar_tramo_unico:
  "filter (\<lambda>tr. contiene tr t) ESCALA \<noteq> [] \<Longrightarrow>
   filter (\<lambda>tr. contiene tr t) ESCALA = [snd (buscar_tramo t)]"
  by (simp add: buscar_tramo_def ESCALA_def contiene_def split: if_splits)

text \<open>The previous bracket's maximum never exceeds a non-negative total.\<close>

lemma previo_le: "0 \<le> t \<Longrightarrow> fst (tramo_previo (fst (buscar_tramo t))) \<le> t"
  by (simp add: buscar_tramo_rangos tramo_previo_def ESCALA_def)

lemma tramo_previo_max:
  "idx \<noteq> 0 \<Longrightarrow> idx < length ESCALA \<Longrightarrow>
   max_uma (ESCALA ! (idx - 1)) = Some (fst (tramo_previo idx))"
proof -
  assume "idx \<noteq> 0" and "idx < length ESCALA"
  then have "idx \<in> {1, 2, 3, 4, 5, 6}"
    by (auto simp add: ESCALA_def)
  then show ?thesis
    by (auto simp add: tramo_previo_def ESCALA_def)
qed

text \<open>The fields of the result, one by one.\<close>

lemma calcular_uma_p1p2_campos:
  "calcular_uma_p1p2 t a b c = (honor, d) \<Longrightarrow>
     tramo_actual d = snd (buscar_tramo t) \<and>
     p1_uma d = min t (fst (tramo_previo (fst (buscar_tramo t)))) \<and>
     p2_uma d = max 0 (t - p1_uma d) \<and>
     pct_prev_max d = snd (tramo_previo (fst (buscar_tramo t))) \<and>
     pct_act_base_min d = pct_min (snd (buscar_tramo t)) \<and>
     pct_p1_eff d = pct_prev_max d * multiplicador a b c \<and>
     pct_p2_eff d = pct_act_base_min d * multiplicador a b c \<and>
     res_a_uma d = p1_uma d * pct_p1_eff d \<and>
     res_b_uma d = p2_uma d * pct_p2_eff d \<and>
     honor = res_a_uma d + res_b_uma d"
  by (auto simp add: calcular_uma_p1p2_def Let_def split_beta)

text \<open>On a non-negative total the fee is linear in the total, bracket by bracket.\<close>

lemma total_lineal:
  assumes "0 \<le> t"
  shows "fst (calcular_uma_p1p2 t a b c) =
     (fst (tramo_previo (fst (buscar_tramo t))) * snd (tramo_previo (fst (buscar_tramo t)))
       + (t - fst (tramo_previo (fst (buscar_tramo t)))) * pct_min (snd (buscar_tramo t)))
     * multiplicador a b c"
  using previo_le[OF assms]
  by (simp add: calcular_uma_p1p2_def Let_def split_beta min_absorb2 max_absorb2 algebra_simps)

text \<open>
  In exact arithmetic the fee increases strictly with a non-negative total inside one
  bracket: where two fees of the program coincide, rounding alone has made them equal.
\<close>

lemma total_exacto_estricto:
  assumes "0 \<le> t1" and "t1 < t2" and "fst (buscar_tramo t1) = fst (buscar_tramo t2)"
  shows "fst (calcular_uma_p1p2 t1 a b c) < fst (calcular_uma_p1p2 t2 a b c)"
proof -
  let ?i = "fst (buscar_tramo t2)"
  let ?pm = "fst (tramo_previo ?i)" and ?pp = "snd (tramo_previo ?i)"
  let ?r = "pct_min (snd (buscar_tramo t2))"
  let ?m = "multiplicador a b c"
  have t2: "0 \<le> t2"
    using assms(1,2) by simp
  have s: "snd (buscar_tramo t1) = snd (buscar_tramo t2)"
    using assms(3) by (simp add: buscar_tramo_nth)
  have e1: "fst (calcular_uma_p1p2 t1 a b c) = (?pm * ?pp + (t1 - ?pm) * ?r) * ?m"
    using total_lineal[OF assms(1), of a b c] assms(3) s by simp
  have e2: "fst (calcular_uma_p1p2 t2 a b c) = (?pm * ?pp + (t2 - ?pm) * ?r) * ?m"
    using total_lineal[OF t2, of a b c] by simp
  have "(t1 - ?pm) * ?r < (t2 - ?pm) * ?r"
    using assms(2) pct_min_pos[of t2] by simp
  then have "(?pm * ?pp + (t1 - ?pm) * ?r) * ?m < (?pm * ?pp + (t2 - ?pm) * ?r) * ?m"
    using multiplicador_pos[of a b c] by simp
  then show ?thesis
    using e1 e2 by simp
qed

section \<open>Rounding to doubles\<close>

lemma redondeo_par_cerca: "\<bar>of_int (redondeo_par x) - x\<bar> \<le> 1 / 2"
  by (simp add: redondeo_par_def Let_def)

lemma redondeo_par_mas_cercano: "\<bar>of_int (redondeo_par x) - x\<bar> \<le> \<bar>of_int n - x\<bar>"
proof -
  have "n \<le> \<lfloor>x\<rfloor> \<or> \<lfloor>x\<rfloor> + 1 \<le> n"
    by linarith
  then show ?thesis
  proof
    assume "n \<le> \<lfloor>x\<rfloor>"
    then have "(of_int n :: real) \<le> of_int \<lfloor>x\<rfloor>"
      by simp
    then show ?thesis
      by (simp add: redondeo_par_def Let_def) linarith
  next
    assume "\<lfloor>x\<rfloor> + 1 \<le> n"
    then have "(of_int \<lfloor>x\<rfloor> :: real) + 1 \<le> of_int n"
      by (metis of_int_1 of_int_add of_int_le_iff)
    then show ?thesis
      by (simp add: redondeo_par_def Let_def) linarith
  qed
qed

lemma redondeo_par_of_int: "redondeo_par (of_int n) = n"
  by (simp add: redondeo_par_def)

lemma exponente_ge: "- 1074 \<le> exponente x"
  by (simp add: exponente_def)

text \<open>Below the magnitude of \<open>x\<close> sit at most 53 bits.\<close>

lemma exponente_cota:
  assumes "x \<noteq> 0"
  shows "\<bar>x\<bar> < 2 ^ 53 * 2 powr of_int (exponente x)"
proof -
  have pos: "0 < \<bar>x\<bar>"
    using assms by simp
  have "\<bar>x\<bar> < 2 powr of_int (\<lfloor>log 2 \<bar>x\<bar>\<rfloor> + 1)"
    using floor_log_eq_powr_iff[of "\<bar>x\<bar>" 2 "\<lfloor>log 2 \<bar>x\<bar>\<rfloor>"] pos by simp
  also have "\<dots> \<le> 2 powr of_int (exponente x + 53)"
    by (simp add: exponente_def)
  also have "\<dots> = 2 ^ 53 * 2 powr of_int (exponente x)"
    by (simp add: powr_add)
  finally show ?thesis .
qed

lemma exponente_normal:
  assumes "x \<noteq> 0" and "- 1074 < exponente x"
  shows "2 ^ 52 * 2 powr of_int (exponente x) \<le> \<bar>x\<bar>"
proof -
  have pos: "0 < \<bar>x\<bar>"
    using assms by simp
  have e: "exponente x = \<lfloor>log 2 \<bar>x\<bar>\<rfloor> - 52"
    using assms(2) by (simp add: exponente_def max_def split: if_splits)
  have "2 powr of_int (exponente x + 52) \<le> \<bar>x\<bar>"
    using floor_log_eq_powr_iff[of "\<bar>x\<bar>" 2 "\<lfloor>log 2 \<bar>x\<bar>\<rfloor>"] pos by (simp add: e)
  then show ?thesis
    by (simp add: powr_add mult.commute)
qed

text \<open>A rounded value is an integer of at most 53 bits times a power of two.\<close>

lemma redondear_forma:
  "\<exists>m j. redondear z = of_int m * 2 powr of_int j \<and> \<bar>m\<bar> \<le> 2 ^ 53 \<and> - 1074 \<le> j"
proof (cases "z = 0")
  case True
  have "redondear z = of_int 0 * 2 powr of_int 0 \<and> \<bar>0::int\<bar> \<le> 2 ^ 53 \<and> - 1074 \<le> (0::int)"
    using True by (simp add: redondear_def)
  then show ?thesis by blast
next
  case False
  let ?s = "(2::real) powr of_int (exponente z)"
  let ?k = "redondeo_par (z / ?s)"
  have s: "0 < ?s" by simp
  have a: "\<bar>z / ?s\<bar> < 2 ^ 53"
    using exponente_cota[OF False] s by (simp add: field_simps)
  have up: "z / ?s \<le> 2 ^ 53" and lo: "- (2 ^ 53) \<le> z / ?s"
    using a by linarith+
  have "\<bar>of_int ?k - z / ?s\<bar> \<le> \<bar>of_int (2 ^ 53) - z / ?s\<bar>"
    by (rule redondeo_par_mas_cercano)
  then have "\<bar>of_int ?k - z / ?s\<bar> \<le> \<bar>2 ^ 53 - z / ?s\<bar>"
    by simp
  then have k1: "(of_int ?k :: real) \<le> 2 ^ 53"
    using up by linarith
  have "\<bar>of_int ?k - z / ?s\<bar> \<le> \<bar>of_int (- (2 ^ 53)) - z / ?s\<bar>"
    by (rule redondeo_par_mas_cercano)
  then have "\<bar>of_int ?k - z / ?s\<bar> \<le> \<bar>- (2 ^ 53) - z / ?s\<bar>"
    by simp
  then have k2: "- (2 ^ 53) \<le> (of_int ?k :: real)"
    using lo by linarith
  have "\<bar>?k\<bar> \<le> 2 ^ 53"
  proof -
    have "\<bar>of_int ?k :: real\<bar> \<le> 2 ^ 53"
      using k1 k2 by linarith
    then have "(of_int \<bar>?k\<bar> :: real) \<le> of_int (2 ^ 53)"
      by simp
    then show ?thesis
      by (simp only: of_int_le_iff)
  qed
  then have "redondear z = of_int ?k * ?s \<and> \<bar>?k\<bar> \<le> 2 ^ 53 \<and> - 1074 \<le> exponente z"
    using False by (simp add: redondear_def exponente_ge)
  then show ?thesis by blast
qed

text \<open>
  The rounded value is as near to \<open>x\<close> as any double: no integer of at most 53 bits times
  a power of two, from the exponent -1074 up, is nearer.
\<close>

lemma redondear_mas_cercano:
  assumes m: "\<bar>m\<bar> \<le> 2 ^ 53" and j: "- 1074 \<le> j"
  shows "\<bar>redondear x - x\<bar> \<le> \<bar>of_int m * 2 powr of_int j - x\<bar>"
proof (cases "x = 0")
  case True
  then show ?thesis
    by (simp add: redondear_def)
next
  case False
  let ?e = "exponente x"
  let ?s = "(2::real) powr of_int ?e"
  let ?k = "redondeo_par (x / ?s)"
  have s: "0 < ?s" by simp
  have r: "redondear x = of_int ?k * ?s"
    using False by (simp add: redondear_def)
  have A: "\<bar>of_int ?k * ?s - x\<bar> \<le> \<bar>of_int n * ?s - x\<bar>" for n :: int
  proof -
    have "\<bar>of_int ?k - x / ?s\<bar> \<le> \<bar>of_int n - x / ?s\<bar>"
      by (rule redondeo_par_mas_cercano)
    then have "\<bar>of_int ?k - x / ?s\<bar> * ?s \<le> \<bar>of_int n - x / ?s\<bar> * ?s"
      using s by (simp only: mult_le_cancel_right_pos)
    moreover have "\<bar>of_int i - x / ?s\<bar> * ?s = \<bar>of_int i * ?s - x\<bar>" for i :: int
    proof -
      have "\<bar>of_int i - x / ?s\<bar> * ?s = \<bar>(of_int i - x / ?s) * ?s\<bar>"
        using s by (simp add: abs_mult)
      also have "(of_int i - x / ?s) * ?s = of_int i * ?s - x"
        using s by (simp add: field_simps)
      finally show ?thesis .
    qed
    ultimately show ?thesis
      by simp
  qed
  show ?thesis
  proof (cases "?e \<le> j")
    case True
    have "(2::real) powr of_int j = 2 powr of_int (j - ?e) * ?s"
      by (simp add: powr_add[symmetric])
    also have "(2::real) powr of_int (j - ?e) = 2 ^ nat (j - ?e)"
      using True powr_realpow[of 2 "nat (j - ?e)"] by simp
    finally have pw: "(2::real) powr of_int j = 2 ^ nat (j - ?e) * ?s" .
    have eq: "of_int m * 2 powr of_int j = of_int (m * 2 ^ nat (j - ?e)) * ?s"
      unfolding pw by simp
    show ?thesis
      unfolding r eq by (rule A)
  next
    case False
    then have lt: "j \<le> ?e - 1" and n: "- 1074 < ?e"
      using j by simp_all
    have big: "2 ^ 52 * ?s \<le> \<bar>x\<bar>"
      using exponente_normal[OF \<open>x \<noteq> 0\<close> n] .
    have "(2::real) powr of_int j \<le> 2 powr of_int (?e - 1)"
      using lt by simp
    also have "\<dots> = ?s / 2"
      by (simp add: powr_diff)
    finally have pj: "(2::real) powr of_int j \<le> ?s / 2" .
    have "\<bar>of_int m :: real\<bar> \<le> 2 ^ 53"
    proof -
      have "(of_int \<bar>m\<bar> :: real) \<le> of_int (2 ^ 53)"
        using m by (simp only: of_int_le_iff)
      then show ?thesis by simp
    qed
    then have "\<bar>of_int m :: real\<bar> * 2 powr of_int j \<le> 2 ^ 53 * (?s / 2)"
      using pj by (intro mult_mono) simp_all
    then have d: "\<bar>of_int m * 2 powr of_int j\<bar> \<le> 2 ^ 52 * ?s"
      by (simp add: abs_mult)
    show ?thesis
    proof (cases "0 < x")
      case True
      have "\<bar>of_int ?k * ?s - x\<bar> \<le> \<bar>of_int (2 ^ 52) * ?s - x\<bar>"
        by (rule A)
      then have "\<bar>redondear x - x\<bar> \<le> \<bar>2 ^ 52 * ?s - x\<bar>"
        using r by simp
      then show ?thesis
        using d big True by linarith
    next
      case False
      have "\<bar>of_int ?k * ?s - x\<bar> \<le> \<bar>of_int (- (2 ^ 52)) * ?s - x\<bar>"
        by (rule A)
      then have "\<bar>redondear x - x\<bar> \<le> \<bar>- (2 ^ 52 * ?s) - x\<bar>"
        using r by simp
      then show ?thesis
        using d big False by linarith
    qed
  qed
qed

lemma redondear_mono:
  assumes "x \<le> y"
  shows "redondear x \<le> redondear y"
proof (cases "x = y")
  case True
  then show ?thesis by simp
next
  case False
  then have lt: "x < y"
    using assms by simp
  obtain m j where rx: "redondear x = of_int m * 2 powr of_int j"
    and m: "\<bar>m\<bar> \<le> 2 ^ 53" and j: "- 1074 \<le> j"
    using redondear_forma[of x] by blast
  obtain n i where ry: "redondear y = of_int n * 2 powr of_int i"
    and n: "\<bar>n\<bar> \<le> 2 ^ 53" and i: "- 1074 \<le> i"
    using redondear_forma[of y] by blast
  have 1: "\<bar>redondear x - x\<bar> \<le> \<bar>redondear y - x\<bar>"
    using redondear_mas_cercano[OF n i, of x] ry by simp
  have 2: "\<bar>redondear y - y\<bar> \<le> \<bar>redondear x - y\<bar>"
    using redondear_mas_cercano[OF m j, of y] rx by simp
  show ?thesis
    using 1 2 lt by linarith
qed

lemma redondear_0: "redondear 0 = 0"
  by (simp add: redondear_def)

lemma redondear_nonneg: "0 \<le> x \<Longrightarrow> 0 \<le> redondear x"
  using redondear_mono[of 0 x] by (simp add: redondear_0)

text \<open>How to compute a rounding below \<open>2 ^ 53\<close>: scale to 53 bits, round to an integer.\<close>

lemma redondear_normal:
  assumes "2 ^ 52 \<le> \<bar>x\<bar> * 2 ^ n" and "\<bar>x\<bar> * 2 ^ n < 2 ^ 53" and "n \<le> 1074"
  shows "redondear x = of_int (redondeo_par (x * 2 ^ n)) / 2 ^ n"
proof -
  have x0: "x \<noteq> 0"
    using assms(1) by auto
  have p: "(2::real) powr of_int (52 - int n) = 2 ^ 52 / 2 ^ n"
    by (simp add: powr_diff powr_realpow)
  have q: "(2::real) powr of_int (52 - int n + 1) = 2 ^ 53 / 2 ^ n"
  proof -
    have "(52 - int n + 1) = 53 - int n" by simp
    then show ?thesis
      by (simp add: powr_diff powr_realpow)
  qed
  have "\<lfloor>log 2 \<bar>x\<bar>\<rfloor> = 52 - int n"
  proof -
    have "2 powr of_int (52 - int n) \<le> \<bar>x\<bar> \<and> \<bar>x\<bar> < 2 powr of_int (52 - int n + 1)"
      unfolding p q using assms(1,2) by (simp add: field_simps)
    then show ?thesis
      using floor_log_eq_powr_iff[of "\<bar>x\<bar>" 2 "52 - int n"] x0 by simp
  qed
  then have e: "exponente x = - int n"
    using assms(3) by (simp add: exponente_def)
  have "(2::real) powr of_int (- int n) = 1 / 2 ^ n"
    by (simp add: powr_minus powr_realpow inverse_eq_divide)
  then show ?thesis
    using x0 by (simp add: redondear_def e)
qed

lemma multiplicador_doble_nonneg: "0 \<le> multiplicador_doble a b c"
  by (simp add: multiplicador_doble_def Let_def redondear_nonneg)

lemma pct_prev_nonneg: "0 \<le> snd (tramo_previo (fst (buscar_tramo t)))"
  by (simp add: buscar_tramo_rangos tramo_previo_def ESCALA_def)

text \<open>The fee on doubles, written out.\<close>

lemma total_doble:
  "fst (calcular_uma_p1p2_doble t a b c) =
     redondear
      (redondear (min t (fst (tramo_previo (fst (buscar_tramo t)))) *
         redondear (redondear (snd (tramo_previo (fst (buscar_tramo t)))) *
           multiplicador_doble a b c)) +
       redondear (max 0 (redondear (t - min t (fst (tramo_previo (fst (buscar_tramo t)))))) *
         redondear (redondear (pct_min (snd (buscar_tramo t))) * multiplicador_doble a b c)))"
  by (simp add: calcular_uma_p1p2_doble_def Let_def split_beta)

text \<open>
  No overflow: on a non-negative double \<open>t\<close> every rounded result of the computation is at
  most \<open>t + 1500\<close>, so for totals up to \<open>10 ^ 308\<close> they all stay below the largest
  double, and rounding without an upper limit is what the machine does.
\<close>

lemma redondear_le: "x \<le> d \<Longrightarrow> redondear d = d \<Longrightarrow> redondear x \<le> d"
  using redondear_mono[of x d] by simp

lemma redondear_idem: "redondear (redondear x) = redondear x"
proof -
  obtain m j where f: "redondear x = of_int m * 2 powr of_int j"
    and m: "\<bar>m\<bar> \<le> 2 ^ 53" and j: "- 1074 \<le> j"
    using redondear_forma[of x] by blast
  have "\<bar>redondear (redondear x) - redondear x\<bar> \<le> \<bar>of_int m * 2 powr of_int j - redondear x\<bar>"
    by (rule redondear_mas_cercano[OF m j])
  then show ?thesis
    using f by simp
qed

lemma redondear_cerca_de_doble:
  assumes "redondear d = d"
  shows "\<bar>redondear x - x\<bar> \<le> \<bar>d - x\<bar>"
proof -
  obtain m j where f: "redondear d = of_int m * 2 powr of_int j"
    and m: "\<bar>m\<bar> \<le> 2 ^ 53" and j: "- 1074 \<le> j"
    using redondear_forma[of d] by blast
  show ?thesis
    using redondear_mas_cercano[OF m j, of x] f assms by simp
qed

lemma doble_1: "redondear 1 = 1"
  by (subst redondear_normal[where n = 52]) (simp_all add: redondeo_par_def)

lemma doble_2: "redondear 2 = 2"
  by (subst redondear_normal[where n = 51]) (simp_all add: redondeo_par_def)

lemma doble_medio: "redondear (1 / 2) = 1 / 2"
  by (subst redondear_normal[where n = 53]) (simp_all add: redondeo_par_def)

lemma doble_750: "redondear 750 = 750"
  by (subst redondear_normal[where n = 43]) (simp_all add: redondeo_par_def)

lemma multiplicador_doble_le: "multiplicador_doble a b c \<le> 2"
proof -
  have l14: "redondear 1.4 \<le> 2" and l05: "redondear 0.5 \<le> 1 / 2" and l09: "redondear 0.9 \<le> 1"
    by (rule redondear_le, simp, rule doble_2, rule redondear_le, simp, rule doble_medio,
        rule redondear_le, simp, rule doble_1)
  have n14: "0 \<le> redondear 1.4" and n05: "0 \<le> redondear 0.5" and n09: "0 \<le> redondear 0.9"
    by (simp_all add: redondear_nonneg)
  have s1: "redondear (1 * redondear 1.4) \<le> 2"
    using l14 by (intro redondear_le doble_2) simp
  have s2: "redondear (m * redondear 0.5) \<le> 2" if "0 \<le> m" "m \<le> 2" for m
  proof (rule redondear_le[OF _ doble_2])
    have "m * redondear 0.5 \<le> 2 * (1 / 2)"
      using that l05 n05 by (intro mult_mono) simp_all
    then show "m * redondear 0.5 \<le> 2" by simp
  qed
  have s3: "redondear (m * redondear 0.9) \<le> 2" if "0 \<le> m" "m \<le> 2" for m
  proof (rule redondear_le[OF _ doble_2])
    have "m * redondear 0.9 \<le> 2 * 1"
      using that l09 n09 by (intro mult_mono) simp_all
    then show "m * redondear 0.9 \<le> 2" by simp
  qed
  let ?m1 = "if a then redondear (1 * redondear 1.4) else 1"
  let ?m2 = "if b then redondear (?m1 * redondear 0.5) else ?m1"
  have m1: "0 \<le> ?m1 \<and> ?m1 \<le> 2"
    using s1 n14 by (simp add: redondear_nonneg)
  have m2: "0 \<le> ?m2 \<and> ?m2 \<le> 2"
    using m1 s2[of ?m1] n05 by (simp add: redondear_nonneg)
  have "(if c then redondear (?m2 * redondear 0.9) else ?m2) \<le> 2"
    using m2 s3[of ?m2] by simp
  then show ?thesis
    by (simp add: multiplicador_doble_def Let_def)
qed

lemma tasa_doble_le:
  assumes "0 \<le> r" and "r \<le> 1 / 2"
  shows "redondear (redondear r * multiplicador_doble a b c) \<le> 1"
proof (rule redondear_le[OF _ doble_1])
  have "redondear r \<le> 1 / 2"
    using assms(2) by (rule redondear_le) (rule doble_medio)
  then have "redondear r * multiplicador_doble a b c \<le> 1 / 2 * 2"
    using multiplicador_doble_le[of a b c] multiplicador_doble_nonneg[of a b c]
      redondear_nonneg[OF assms(1)]
    by (intro mult_mono) simp_all
  then show "redondear r * multiplicador_doble a b c \<le> 1" by simp
qed

lemma tasas_tabla_le:
  "snd (tramo_previo (fst (buscar_tramo t))) \<le> 1 / 2 \<and> pct_min (snd (buscar_tramo t)) \<le> 1 / 2 \<and>
   0 \<le> fst (tramo_previo (fst (buscar_tramo t))) \<and> fst (tramo_previo (fst (buscar_tramo t))) \<le> 750"
  by (simp add: buscar_tramo_rangos tramo_previo_def ESCALA_def)

lemma cota_suma:
  fixes r x y t :: real
  shows "\<bar>r - (x + y)\<bar> \<le> \<bar>t - (x + y)\<bar> \<Longrightarrow> 0 \<le> x \<Longrightarrow> x \<le> 750 \<Longrightarrow> 0 \<le> y \<Longrightarrow> y \<le> t
    \<Longrightarrow> r \<le> t + 1500"
  by linarith

lemma calcular_uma_p1p2_doble_cota:
  assumes "0 \<le> t" and "redondear t = t"
  shows "0 \<le> p2_uma (snd (calcular_uma_p1p2_doble t a b c)) \<and>
     p2_uma (snd (calcular_uma_p1p2_doble t a b c)) \<le> t \<and>
     pct_p1_eff (snd (calcular_uma_p1p2_doble t a b c)) \<le> 1 \<and>
     pct_p2_eff (snd (calcular_uma_p1p2_doble t a b c)) \<le> 1 \<and>
     res_a_uma (snd (calcular_uma_p1p2_doble t a b c)) \<le> 750 \<and>
     res_b_uma (snd (calcular_uma_p1p2_doble t a b c)) \<le> t \<and>
     fst (calcular_uma_p1p2_doble t a b c) \<le> t + 1500"
proof -
  let ?pm = "fst (tramo_previo (fst (buscar_tramo t)))"
  let ?e1 = "redondear (redondear (snd (tramo_previo (fst (buscar_tramo t)))) *
    multiplicador_doble a b c)"
  let ?e2 = "redondear (redondear (pct_min (snd (buscar_tramo t))) * multiplicador_doble a b c)"
  let ?p1 = "min t ?pm"
  let ?p2 = "max 0 (redondear (t - ?p1))"
  let ?ra = "redondear (?p1 * ?e1)"
  let ?rb = "redondear (?p2 * ?e2)"
  have tab: "0 \<le> ?pm" "?pm \<le> 750"
    using tasas_tabla_le[of t] by simp_all
  have e1: "0 \<le> ?e1" "?e1 \<le> 1"
    using pct_prev_nonneg[of t] multiplicador_doble_nonneg[of a b c] tasas_tabla_le[of t]
    by (simp_all add: redondear_nonneg tasa_doble_le)
  have e2: "0 \<le> ?e2" "?e2 \<le> 1"
    using pct_min_pos[of t] multiplicador_doble_nonneg[of a b c] tasas_tabla_le[of t]
    by (simp_all add: redondear_nonneg tasa_doble_le)
  have p1: "0 \<le> ?p1" "?p1 \<le> 750"
    using assms(1) tab by simp_all
  have "redondear (t - ?p1) \<le> t"
    using p1(1) assms(2) by (intro redondear_le) simp_all
  then have p2: "0 \<le> ?p2" "?p2 \<le> t"
    using assms(1) by simp_all
  have ra: "0 \<le> ?ra" "?ra \<le> 750"
  proof -
    show "0 \<le> ?ra"
      by (rule redondear_nonneg) (rule mult_nonneg_nonneg[OF p1(1) e1(1)])
    have "?p1 * ?e1 \<le> 750 * 1"
      using p1 e1 by (intro mult_mono) simp_all
    then show "?ra \<le> 750"
      by (intro redondear_le doble_750) simp
  qed
  have rb: "0 \<le> ?rb" "?rb \<le> t"
  proof -
    show "0 \<le> ?rb"
      by (rule redondear_nonneg) (rule mult_nonneg_nonneg[OF p2(1) e2(1)])
    have "?p2 * ?e2 \<le> t * 1"
      using p2 e2 by (intro mult_mono) simp_all
    then show "?rb \<le> t"
      using assms(2) by (intro redondear_le) simp_all
  qed
  have "\<bar>redondear (?ra + ?rb) - (?ra + ?rb)\<bar> \<le> \<bar>t - (?ra + ?rb)\<bar>"
    using assms(2) by (rule redondear_cerca_de_doble)
  then have tot: "redondear (?ra + ?rb) \<le> t + 1500"
    using ra rb by (rule cota_suma)
  have c: "p2_uma (snd (calcular_uma_p1p2_doble t a b c)) = ?p2"
    "pct_p1_eff (snd (calcular_uma_p1p2_doble t a b c)) = ?e1"
    "pct_p2_eff (snd (calcular_uma_p1p2_doble t a b c)) = ?e2"
    "res_a_uma (snd (calcular_uma_p1p2_doble t a b c)) = ?ra"
    "res_b_uma (snd (calcular_uma_p1p2_doble t a b c)) = ?rb"
    "fst (calcular_uma_p1p2_doble t a b c) = redondear (?ra + ?rb)"
    by (simp_all add: calcular_uma_p1p2_doble_def Let_def split_beta)
  show ?thesis
    unfolding c using p2 e1(2) e2(2) ra(2) rb(2) tot by blast
qed

text \<open>The literals and products of the computation at the flags (True, False, True).\<close>

lemma doble_14: "redondear 1.4 = 6305039478318694 / 2 ^ 52"
  by (subst redondear_normal[where n = 52]) (simp_all add: redondeo_par_def)

lemma doble_09: "redondear 0.9 = 8106479329266893 / 2 ^ 53"
  by (subst redondear_normal[where n = 53]) (simp_all add: redondeo_par_def)

lemma doble_024: "redondear 0.24 = 8646911284551352 / 2 ^ 55"
  by (subst redondear_normal[where n = 55]) (simp_all add: redondeo_par_def)

lemma doble_017: "redondear 0.17 = 6124895493223875 / 2 ^ 55"
  by (subst redondear_normal[where n = 55]) (simp_all add: redondeo_par_def)

lemma multiplicador_doble_TFT: "multiplicador_doble True False True = 5674535530486825 / 2 ^ 52"
proof -
  have a: "redondear (1 * (6305039478318694 / 2 ^ 52)) = 6305039478318694 / 2 ^ 52"
    by (subst redondear_normal[where n = 52]) (simp_all add: redondeo_par_def)
  have b: "redondear (6305039478318694 / 2 ^ 52 * (8106479329266893 / 2 ^ 53))
      = 5674535530486825 / 2 ^ 52"
    by (subst redondear_normal[where n = 52]) (simp_all add: redondeo_par_def)
  show ?thesis
    by (simp only: multiplicador_doble_def Let_def if_True if_False doble_14 doble_09 a b)
qed

text \<open>The rates and the fee of a total in the bracket 91 to 150, at these flags.\<close>

lemma total_doble_tramo3_TFT:
  assumes "91 \<le> t" and "t \<le> 150"
  shows "fst (calcular_uma_p1p2_doble t True False True) =
     redondear (7660622966157214 / 2 ^ 48 +
       redondear (max 0 (redondear (t - 90)) * (7717368321462083 / 2 ^ 55)))"
proof -
  have b: "buscar_tramo t = (3, ESCALA ! 3)"
    using assms by (simp add: buscar_tramo_rangos)
  have p: "tramo_previo 3 = (90, 0.24)"
    by (simp add: tramo_previo_def ESCALA_def)
  have r: "pct_min (ESCALA ! 3) = 0.17"
    by (simp add: ESCALA_def)
  have m: "min t 90 = 90"
    using assms by simp
  have e1: "redondear (8646911284551352 / 2 ^ 55 * (5674535530486825 / 2 ^ 52))
      = 5447554109267352 / 2 ^ 54"
    by (subst redondear_normal[where n = 54]) (simp_all add: redondeo_par_def)
  have e2: "redondear (6124895493223875 / 2 ^ 55 * (5674535530486825 / 2 ^ 52))
      = 7717368321462083 / 2 ^ 55"
    by (subst redondear_normal[where n = 55]) (simp_all add: redondeo_par_def)
  have ra: "redondear (90 * (5447554109267352 / 2 ^ 54)) = 7660622966157214 / 2 ^ 48"
    by (subst redondear_normal[where n = 48]) (simp_all add: redondeo_par_def)
  show ?thesis
    by (simp only: total_doble b p r m fst_conv snd_conv doble_024 doble_017
        multiplicador_doble_TFT e1 e2 ra)
qed

section \<open>The claims\<close>

text \<open>
  C1, partition completeness, fails on the code: the brackets of \<open>ESCALA\<close> have integer
  ends (15 and 16, 45 and 46, ...) while the total is a float, so totals strictly between
  two brackets are in none. At a total of 450.5 UMA no bracket passes the test of the
  lookup, \<open>buscar_tramo\<close> falls back to index 0 and the bracket "0 to 15", and the whole
  total is priced at 22 per cent: a fee of 99.11 UMA, above the 90.13 UMA of a total of
  451 UMA. The neighbours 450 and 451 are located in brackets 4 and 5.
\<close>

theorem C1_hueco_450_5:
  "filter (\<lambda>tr. contiene tr 450.5) ESCALA = [] \<and>
   buscar_tramo 450.5 = (0, ESCALA ! 0) \<and>
   buscar_tramo 450 = (4, ESCALA ! 4) \<and>
   buscar_tramo 451 = (5, ESCALA ! 5) \<and>
   fst (calcular_uma_p1p2 450.5 False False False) = 99.11 \<and>
   fst (calcular_uma_p1p2 451 False False False) = 90.13"
  by (simp add: ESCALA_def contiene_def buscar_tramo_def calcular_uma_p1p2_def
      tramo_previo_def multiplicador_def Let_def)

text \<open>
  C2: a total strictly inside one of the six gaps of the scale (between 15 and 16, 45 and
  46, 90 and 91, 150 and 151, 450 and 451, 750 and 751) is in no bracket; the lookup
  returns its fallback, index 0 with the first bracket; the previous maximum and the
  previous rate are then 0, P1 is empty, and the whole total is P2, priced at the first
  bracket's minimum rate 0.22 times the multiplier.
\<close>

theorem C2_huecos:
  "15 < t \<and> t < 16 \<or> 45 < t \<and> t < 46 \<or> 90 < t \<and> t < 91 \<or>
   150 < t \<and> t < 151 \<or> 450 < t \<and> t < 451 \<or> 750 < t \<and> t < 751 \<Longrightarrow>
   filter (\<lambda>tr. contiene tr t) ESCALA = [] \<and>
   buscar_tramo t = (0, ESCALA ! 0) \<and>
   tramo_previo (fst (buscar_tramo t)) = (0, 0) \<and>
   pct_min (ESCALA ! 0) = 0.22 \<and>
   calcular_uma_p1p2 t a b c =
     (t * (0.22 * multiplicador a b c),
      \<lparr>tramo_actual = ESCALA ! 0, p1_uma = 0, p2_uma = t,
       pct_prev_max = 0, pct_act_base_min = 0.22,
       pct_p1_eff = 0, pct_p2_eff = 0.22 * multiplicador a b c,
       res_a_uma = 0, res_b_uma = t * (0.22 * multiplicador a b c)\<rparr>)"
proof -
  assume h: "15 < t \<and> t < 16 \<or> 45 < t \<and> t < 46 \<or> 90 < t \<and> t < 91 \<or>
    150 < t \<and> t < 151 \<or> 450 < t \<and> t < 451 \<or> 750 < t \<and> t < 751"
  have ninguno: "filter (\<lambda>tr. contiene tr t) ESCALA = []"
    using h by (auto simp add: ESCALA_def contiene_def)
  have b: "buscar_tramo t = (0, ESCALA ! 0)"
    using h by (auto simp add: buscar_tramo_rangos)
  have p: "tramo_previo 0 = (0, 0)"
    by (simp add: tramo_previo_def)
  have r: "pct_min (ESCALA ! 0) = 0.22"
    by (simp add: ESCALA_def)
  have pos: "0 \<le> t"
    using h by auto
  have c: "calcular_uma_p1p2 t a b c =
     (t * (0.22 * multiplicador a b c),
      \<lparr>tramo_actual = ESCALA ! 0, p1_uma = 0, p2_uma = t,
       pct_prev_max = 0, pct_act_base_min = 0.22,
       pct_p1_eff = 0, pct_p2_eff = 0.22 * multiplicador a b c,
       res_a_uma = 0, res_b_uma = t * (0.22 * multiplicador a b c)\<rparr>)"
    using pos by (simp add: calcular_uma_p1p2_def b p r Let_def)
  show ?thesis
    using ninguno b p r c by simp
qed

theorem C2_huecos_witness:
  "filter (\<lambda>tr. contiene tr 45.5) ESCALA = [] \<and>
   buscar_tramo 45.5 = (0, ESCALA ! 0) \<and>
   fst (calcular_uma_p1p2 45.5 True True True) = 45.5 * (0.22 * multiplicador True True True)"
  using C2_huecos [of "45.5" True True True] by simp

text \<open>When every check passes, \<open>calcular\<close> returns, and these are the values it has computed.\<close>

lemma calcular_ok:
  assumes "edt_cap_planilla f = Numero cap" and "edt_int_planilla f = Numero intereses"
    and "dt_corte f < dt_calculo f"
    and "edt_to f = Numero t_o" and "edt_tm f = Numero t_m" and "t_o \<noteq> - 100"
    and "edt_uma_calc f = Numero u" and "0 < u"
    and "edt_uma_pago f \<noteq> Ilegible"
  shows "\<exists>r. calcular f = Inr r \<and>
     factor r = (100 + t_m) / (100 + t_o) - 1 \<and>
     interes_adic r = cap * factor r \<and>
     base_reg r = (cap + intereses) + interes_adic r \<and>
     uma_total_calc r = base_reg r / u \<and>
     (honor_uma r, det r) =
       calcular_uma_p1p2 (uma_total_calc r) (chk_apoderado f) (chk_mitad41 f) (chk_sin_exc f)"
proof -
  have z: "100 + t_o \<noteq> 0"
    using assms(6) by simp
  obtain p where p: "pesos_al_pago (edt_uma_pago f)
      (fst (calcular_uma_p1p2 ((cap + intereses + cap * ((100 + t_m) / (100 + t_o) - 1)) / u)
         (chk_apoderado f) (chk_mitad41 f) (chk_sin_exc f))) = Inr p"
    using assms(9) by (cases "edt_uma_pago f") (simp_all add: pesos_al_pago_def)
  show ?thesis
    using assms(3,8) z p
    by (simp add: calcular_def luego_def Let_def split_beta assms(1,2,4,5,7))
qed

text \<open>
  C3: the update of the base. When the inputs pass the checks, the computation returns
  with factor = (100 + t_m) / (100 + t_o) - 1 and adjustment = principal * factor; the base
  is principal + interest + principal * factor, so the interest enters the base but not
  the adjustment. For a positive principal the adjustment has the sign of the factor
  (negative when the index fell); for a principal of 0 it is 0.
\<close>

theorem C3_actualizacion:
  assumes "edt_cap_planilla f = Numero cap" and "edt_int_planilla f = Numero intereses"
    and "dt_corte f < dt_calculo f"
    and "edt_to f = Numero t_o" and "edt_tm f = Numero t_m" and "t_o \<noteq> - 100"
    and "edt_uma_calc f = Numero u" and "0 < u"
    and "edt_uma_pago f \<noteq> Ilegible"
  shows "\<exists>r. calcular f = Inr r \<and>
     factor r = (100 + t_m) / (100 + t_o) - 1 \<and>
     interes_adic r = cap * factor r \<and>
     base_reg r = cap + intereses + cap * factor r \<and>
     (0 < cap \<longrightarrow> sgn (interes_adic r) = sgn (factor r)) \<and>
     (cap = 0 \<longrightarrow> interes_adic r = 0) \<and>
     uma_total_calc r = (cap + intereses + cap * factor r) / u"
proof -
  obtain r where r: "calcular f = Inr r"
    "factor r = (100 + t_m) / (100 + t_o) - 1"
    "interes_adic r = cap * factor r"
    "base_reg r = (cap + intereses) + interes_adic r"
    "uma_total_calc r = base_reg r / u"
    using calcular_ok[OF assms] by blast
  have s: "0 < cap \<longrightarrow> sgn (interes_adic r) = sgn (factor r)"
    by (simp add: r(3) sgn_mult)
  show ?thesis
    using r s by auto
qed

theorem C3_actualizacion_witness:
  "\<exists>r. calcular (ejemplo\<lparr>edt_to := Numero 74.80, edt_tm := Numero 62.15\<rparr>) = Inr r \<and>
     factor r = (100 + 62.15) / (100 + 74.80) - 1 \<and>
     interes_adic r = 15000000 * factor r \<and>
     base_reg r = 15000000 + 5000000 + 15000000 * factor r \<and>
     sgn (interes_adic r) = sgn (factor r) \<and>
     interes_adic r < 0"
proof -
  obtain r where r:
    "calcular (ejemplo\<lparr>edt_to := Numero 74.80, edt_tm := Numero 62.15\<rparr>) = Inr r"
    "factor r = (100 + 62.15) / (100 + 74.80) - 1"
    "interes_adic r = 15000000 * factor r"
    "base_reg r = 15000000 + 5000000 + 15000000 * factor r"
    "sgn (interes_adic r) = sgn (factor r)"
    using C3_actualizacion [of "ejemplo\<lparr>edt_to := Numero 74.80, edt_tm := Numero 62.15\<rparr>"
        15000000 5000000 "74.80" "62.15" "20567.79"]
    by (auto simp add: ejemplo_def)
  have "interes_adic r < 0"
    by (simp add: r(2,3))
  then show ?thesis
    using r by blast
qed

text \<open>
  C4, split conservation: for every total (non-negative or not) and every combination of
  the flags, p1 = min (total, previous maximum), p2 = max (0, total - p1), and
  p1 + p2 = total.
\<close>

theorem C4_split_conservation:
  "p1_uma (snd (calcular_uma_p1p2 t a b c)) =
     min t (fst (tramo_previo (fst (buscar_tramo t)))) \<and>
   p2_uma (snd (calcular_uma_p1p2 t a b c)) =
     max 0 (t - p1_uma (snd (calcular_uma_p1p2 t a b c))) \<and>
   p1_uma (snd (calcular_uma_p1p2 t a b c)) + p2_uma (snd (calcular_uma_p1p2 t a b c)) = t"
  by (simp add: calcular_uma_p1p2_def Let_def split_beta)

text \<open>
  C5, rate selection: with (idx, cur) the result of the lookup, idx = 0 gives a previous
  maximum and a previous rate of 0; otherwise they are the maximum and the maximum rate of
  bracket idx - 1, which exists and has a finite maximum. The base rate of P2 is the
  minimum rate of cur, whatever the total inside the bracket, and it is below the
  bracket's maximum rate.
\<close>

theorem C5_rate_selection:
  assumes "buscar_tramo t = (idx, cur)" and "calcular_uma_p1p2 t a b c = (honor, d)"
  shows "(idx = 0 \<longrightarrow> tramo_previo idx = (0, 0)) \<and>
     (idx \<noteq> 0 \<longrightarrow> idx - 1 < length ESCALA \<and>
        max_uma (ESCALA ! (idx - 1)) = Some (fst (tramo_previo idx)) \<and>
        snd (tramo_previo idx) = pct_max (ESCALA ! (idx - 1))) \<and>
     p1_uma d = min t (fst (tramo_previo idx)) \<and>
     pct_prev_max d = snd (tramo_previo idx) \<and>
     pct_p1_eff d = snd (tramo_previo idx) * multiplicador a b c \<and>
     tramo_actual d = cur \<and>
     pct_act_base_min d = pct_min cur \<and>
     pct_p2_eff d = pct_min cur * multiplicador a b c \<and>
     res_b_uma d = p2_uma d * (pct_min cur * multiplicador a b c) \<and>
     pct_min cur < pct_max cur"
proof -
  have i: "idx = fst (buscar_tramo t)" and k: "cur = snd (buscar_tramo t)"
    using assms(1) by simp_all
  have lt: "idx < length ESCALA"
    using buscar_tramo_lt[of t] i by simp
  have z: "idx = 0 \<longrightarrow> tramo_previo idx = (0, 0)"
    by (simp add: tramo_previo_def)
  have n1: "idx \<noteq> 0 \<longrightarrow> idx - 1 < length ESCALA"
    using lt by arith
  have n2: "idx \<noteq> 0 \<longrightarrow> max_uma (ESCALA ! (idx - 1)) = Some (fst (tramo_previo idx))"
    using lt tramo_previo_max[of idx] by blast
  have n3: "idx \<noteq> 0 \<longrightarrow> snd (tramo_previo idx) = pct_max (ESCALA ! (idx - 1))"
    by (simp add: tramo_previo_def Let_def)
  have m: "pct_min cur < pct_max cur"
    using pct_min_lt_max[of t] k by simp
  show ?thesis
    using calcular_uma_p1p2_campos[OF assms(2)] z n1 n2 n3 m i k by simp
qed

theorem C5_rate_selection_witness:
  "tramo_previo 0 = (0, 0) \<and>
   max_uma (ESCALA ! 5) = Some (fst (tramo_previo 6)) \<and>
   snd (tramo_previo 6) = pct_max (ESCALA ! 5) \<and>
   pct_act_base_min (snd (calcular_uma_p1p2 10 True True True)) = pct_min (ESCALA ! 0) \<and>
   pct_act_base_min (snd (calcular_uma_p1p2 1029 True True True)) = pct_min (ESCALA ! 6)"
proof -
  have b0: "buscar_tramo 10 = (0, ESCALA ! 0)" and b6: "buscar_tramo 1029 = (6, ESCALA ! 6)"
    by (simp_all add: buscar_tramo_rangos)
  have c0: "calcular_uma_p1p2 10 True True True =
      (fst (calcular_uma_p1p2 10 True True True), snd (calcular_uma_p1p2 10 True True True))"
    and c6: "calcular_uma_p1p2 1029 True True True =
      (fst (calcular_uma_p1p2 1029 True True True), snd (calcular_uma_p1p2 1029 True True True))"
    by simp_all
  show ?thesis
    using C5_rate_selection [OF b0 c0] C5_rate_selection [OF b6 c6] by simp
qed

text \<open>
  C6, multiplier composition: the multiplier is the product of the three flag factors
  (1.4 or 1, 0.5 or 1, 0.9 or 1); applying the three factors to 1 one after the other
  gives the same value in each of the six orders; and both effective rates are the
  rate of their portion times this one multiplier.
\<close>

theorem C6_multiplier_composition:
  "(let fa = (if a then 1.4 else 1); fb = (if b then 0.5 else 1);
        fc = (if c then 0.9 else (1::real))
    in multiplicador a b c = fa * fb * fc \<and>
       ((1 * fa) * fb) * fc = multiplicador a b c \<and>
       ((1 * fa) * fc) * fb = multiplicador a b c \<and>
       ((1 * fb) * fa) * fc = multiplicador a b c \<and>
       ((1 * fb) * fc) * fa = multiplicador a b c \<and>
       ((1 * fc) * fa) * fb = multiplicador a b c \<and>
       ((1 * fc) * fb) * fa = multiplicador a b c) \<and>
   pct_prev_max (snd (calcular_uma_p1p2 t a b c)) = snd (tramo_previo (fst (buscar_tramo t))) \<and>
   pct_act_base_min (snd (calcular_uma_p1p2 t a b c)) = pct_min (snd (buscar_tramo t)) \<and>
   pct_p1_eff (snd (calcular_uma_p1p2 t a b c)) =
     pct_prev_max (snd (calcular_uma_p1p2 t a b c)) * multiplicador a b c \<and>
   pct_p2_eff (snd (calcular_uma_p1p2 t a b c)) =
     pct_act_base_min (snd (calcular_uma_p1p2 t a b c)) * multiplicador a b c"
proof -
  have m: "let fa = (if a then 1.4 else 1); fb = (if b then 0.5 else 1);
        fc = (if c then 0.9 else (1::real))
    in multiplicador a b c = fa * fb * fc \<and>
       ((1 * fa) * fb) * fc = multiplicador a b c \<and>
       ((1 * fa) * fc) * fb = multiplicador a b c \<and>
       ((1 * fb) * fa) * fc = multiplicador a b c \<and>
       ((1 * fb) * fc) * fa = multiplicador a b c \<and>
       ((1 * fc) * fa) * fb = multiplicador a b c \<and>
       ((1 * fc) * fb) * fa = multiplicador a b c"
    by (simp add: multiplicador_def Let_def)
  have r: "calcular_uma_p1p2 t a b c =
      (fst (calcular_uma_p1p2 t a b c), snd (calcular_uma_p1p2 t a b c))"
    by simp
  show ?thesis
    using m calcular_uma_p1p2_campos[OF r] by simp
qed

text \<open>
  C7, the end-to-end example, as the program computes it. With a principal of 15,000,000,
  t_o = 62.15 and t_m = 74.80 the factor is 11/141, about 0.07801 (not 0.07836), and the
  adjustment is about 1,170,213 (not 1,175,400). With interest of 5,000,000 the base is
  about 21,170,213, and at a unit value of 20,567.79 the total is about 1029.29 UMA (not
  1029.5). It lands in the bracket without a maximum (minimum rate 0.12), with
  p1 = 750 and a previous rate of 0.17, from the bracket 451 to 750.
\<close>

theorem C7_example_amended:
  "\<not> isl (calcular ejemplo) \<and>
   factor (projr (calcular ejemplo)) = 11 / 141 \<and>
   \<bar>factor (projr (calcular ejemplo)) - 0.07801\<bar> < 0.00001 \<and>
   \<bar>interes_adic (projr (calcular ejemplo)) - 1170213\<bar> < 1 \<and>
   \<bar>base_reg (projr (calcular ejemplo)) - 21170213\<bar> < 1 \<and>
   \<bar>uma_total_calc (projr (calcular ejemplo)) - 1029.29\<bar> < 0.001 \<and>
   tramo_actual (det (projr (calcular ejemplo))) = ESCALA ! 6 \<and>
   max_uma (tramo_actual (det (projr (calcular ejemplo)))) = None \<and>
   pct_act_base_min (det (projr (calcular ejemplo))) = 0.12 \<and>
   p1_uma (det (projr (calcular ejemplo))) = 750 \<and>
   pct_prev_max (det (projr (calcular ejemplo))) = 0.17 \<and>
   min_uma (ESCALA ! 5) = 451 \<and> max_uma (ESCALA ! 5) = Some 750 \<and>
   pct_max (ESCALA ! 5) = 0.17"
  by (simp add: calcular_def luego_def ejemplo_def pesos_al_pago_def
      calcular_uma_p1p2_def buscar_tramo_def contiene_def tramo_previo_def
      ESCALA_def Let_def)

text \<open>
  The figures that C7 quotes for the example are not the program's: its factor is
  more than 0.0003 away from 0.07836, its adjustment and its base more than 5,000 away from
  1,175,400 and 21,175,400, and its total more than 0.2 UMA away from 1029.5.
\<close>

theorem C7_example_counterexample:
  "\<not> isl (calcular ejemplo) \<and>
   0.0003 < \<bar>factor (projr (calcular ejemplo)) - 0.07836\<bar> \<and>
   5000 < \<bar>interes_adic (projr (calcular ejemplo)) - 1175400\<bar> \<and>
   5000 < \<bar>base_reg (projr (calcular ejemplo)) - 21175400\<bar> \<and>
   0.2 < \<bar>uma_total_calc (projr (calcular ejemplo)) - 1029.5\<bar>"
  by (simp add: calcular_def luego_def ejemplo_def pesos_al_pago_def
      calcular_uma_p1p2_def buscar_tramo_def contiene_def tramo_previo_def
      ESCALA_def Let_def)

text \<open>
  C8, monotonicity, as it holds of the program: for two totals t1 < t2 that the lookup
  sends to the same bracket index, and any combination of the flags, the fee that the
  double arithmetic returns at t2 is greater than or equal to the fee at t1. The two fees
  can be equal.
\<close>

theorem C8_monotonicity_doble:
  assumes "t1 < t2" and "fst (buscar_tramo t1) = fst (buscar_tramo t2)"
  shows "fst (calcular_uma_p1p2_doble t1 a b c) \<le> fst (calcular_uma_p1p2_doble t2 a b c)"
proof -
  let ?pm = "fst (tramo_previo (fst (buscar_tramo t2)))"
  let ?e1 = "redondear (redondear (snd (tramo_previo (fst (buscar_tramo t2)))) *
    multiplicador_doble a b c)"
  let ?e2 = "redondear (redondear (pct_min (snd (buscar_tramo t2))) * multiplicador_doble a b c)"
  have s: "snd (buscar_tramo t1) = snd (buscar_tramo t2)"
    using assms(2) by (simp add: buscar_tramo_nth)
  have e1: "0 \<le> ?e1"
    using pct_prev_nonneg[of t2] multiplicador_doble_nonneg[of a b c]
    by (intro redondear_nonneg mult_nonneg_nonneg)
  have e2: "0 \<le> ?e2"
    using pct_min_pos[of t2] multiplicador_doble_nonneg[of a b c]
    by (intro redondear_nonneg mult_nonneg_nonneg) simp_all
  have "min t1 ?pm \<le> min t2 ?pm"
    using assms(1) by simp
  then have "min t1 ?pm * ?e1 \<le> min t2 ?pm * ?e1"
    using e1 by (rule mult_right_mono)
  then have a: "redondear (min t1 ?pm * ?e1) \<le> redondear (min t2 ?pm * ?e1)"
    by (rule redondear_mono)
  have "t1 - min t1 ?pm \<le> t2 - min t2 ?pm"
    using assms(1) by simp
  then have "redondear (t1 - min t1 ?pm) \<le> redondear (t2 - min t2 ?pm)"
    by (rule redondear_mono)
  then have "max 0 (redondear (t1 - min t1 ?pm)) \<le> max 0 (redondear (t2 - min t2 ?pm))"
    by simp
  then have "max 0 (redondear (t1 - min t1 ?pm)) * ?e2 \<le> max 0 (redondear (t2 - min t2 ?pm)) * ?e2"
    using e2 by (rule mult_right_mono)
  then have b: "redondear (max 0 (redondear (t1 - min t1 ?pm)) * ?e2)
      \<le> redondear (max 0 (redondear (t2 - min t2 ?pm)) * ?e2)"
    by (rule redondear_mono)
  have "redondear (redondear (min t1 ?pm * ?e1) + redondear (max 0 (redondear (t1 - min t1 ?pm)) * ?e2))
      \<le> redondear (redondear (min t2 ?pm * ?e1) + redondear (max 0 (redondear (t2 - min t2 ?pm)) * ?e2))"
    by (rule redondear_mono) (rule add_mono[OF a b])
  then show ?thesis
    by (simp add: total_doble assms(2) s)
qed

theorem C8_monotonicity_doble_witness:
  "fst (buscar_tramo 100) = fst (buscar_tramo 120) \<and>
   fst (calcular_uma_p1p2_doble 100 True False True)
     \<le> fst (calcular_uma_p1p2_doble 120 True False True)"
proof -
  have b: "fst (buscar_tramo 100) = fst (buscar_tramo 120)"
    by (simp add: buscar_tramo_rangos)
  show ?thesis
    using b C8_monotonicity_doble [OF _ b, of True False True] by simp
qed

text \<open>
  C8 as stated fails on doubles. The totals 120 and 120 + 2^-46 are neighbouring doubles
  of the bracket 91 to 150; with the flags (True, False, True) the products for P2 differ
  in their last bits, and the final sum rounds both fees to the same double,
  4734690583249945 / 2^47, about 33.642.
\<close>

theorem C8_monotonicity_counterexample:
  "(120::real) < 120 + 1 / 2 ^ 46 \<and>
   redondear 120 = 120 \<and>
   redondear (120 + 1 / 2 ^ 46) = 120 + 1 / 2 ^ 46 \<and>
   fst (buscar_tramo 120) = fst (buscar_tramo (120 + 1 / 2 ^ 46)) \<and>
   fst (calcular_uma_p1p2_doble 120 True False True) = 4734690583249945 / 2 ^ 47 \<and>
   fst (calcular_uma_p1p2_doble (120 + 1 / 2 ^ 46) True False True) = 4734690583249945 / 2 ^ 47 \<and>
   \<not> fst (calcular_uma_p1p2_doble 120 True False True)
       < fst (calcular_uma_p1p2_doble (120 + 1 / 2 ^ 46) True False True)"
proof -
  have d1: "redondear 120 = 120"
    by (subst redondear_normal[where n = 46]) (simp_all add: redondeo_par_def)
  have d2: "redondear (120 + 1 / 2 ^ 46) = 120 + 1 / 2 ^ 46"
    by (subst redondear_normal[where n = 46]) (simp_all add: redondeo_par_def)
  have i: "fst (buscar_tramo 120) = fst (buscar_tramo (120 + 1 / 2 ^ 46))"
    by (simp add: buscar_tramo_rangos)
  have p1: "redondear (120 - 90) = 30"
    by (subst redondear_normal[where n = 48]) (simp_all add: redondeo_par_def)
  have p2: "redondear (120 + 1 / 2 ^ 46 - 90) = 30 + 1 / 2 ^ 46"
    by (subst redondear_normal[where n = 48]) (simp_all add: redondeo_par_def)
  have b1: "redondear (max 0 30 * (7717368321462083 / 2 ^ 55)) = 7235032801370703 / 2 ^ 50"
    by (subst redondear_normal[where n = 50]) (simp_all add: redondeo_par_def)
  have b2: "redondear (max 0 (30 + 1 / 2 ^ 46) * (7717368321462083 / 2 ^ 55))
      = 7235032801370706 / 2 ^ 50"
    by (subst redondear_normal[where n = 50]) (simp_all add: redondeo_par_def)
  have s1: "redondear (7660622966157214 / 2 ^ 48 + 7235032801370703 / 2 ^ 50)
      = 4734690583249945 / 2 ^ 47"
    by (subst redondear_normal[where n = 47]) (simp_all add: redondeo_par_def)
  have s2: "redondear (7660622966157214 / 2 ^ 48 + 7235032801370706 / 2 ^ 50)
      = 4734690583249945 / 2 ^ 47"
    by (subst redondear_normal[where n = 47]) (simp_all add: redondeo_par_def)
  have f1: "fst (calcular_uma_p1p2_doble 120 True False True) = 4734690583249945 / 2 ^ 47"
  proof -
    have "fst (calcular_uma_p1p2_doble 120 True False True) =
        redondear (7660622966157214 / 2 ^ 48 +
          redondear (max 0 (redondear (120 - 90)) * (7717368321462083 / 2 ^ 55)))"
      by (rule total_doble_tramo3_TFT) simp_all
    then show ?thesis
      by (simp only: p1 b1 s1)
  qed
  have f2: "fst (calcular_uma_p1p2_doble (120 + 1 / 2 ^ 46) True False True)
      = 4734690583249945 / 2 ^ 47"
  proof -
    have "fst (calcular_uma_p1p2_doble (120 + 1 / 2 ^ 46) True False True) =
        redondear (7660622966157214 / 2 ^ 48 +
          redondear (max 0 (redondear (120 + 1 / 2 ^ 46 - 90)) * (7717368321462083 / 2 ^ 55)))"
      by (rule total_doble_tramo3_TFT) simp_all
    then show ?thesis
      by (simp only: p2 b2 s2)
  qed
  show ?thesis
    using d1 d2 i f1 f2 by simp
qed

text \<open>
  C9, input validation. With the two amounts readable, a cut-off date equal to or later
  than the calculation date ends the computation with the \<open>ValueError\<close> of the date
  check. With the flow reaching the units conversion (amounts and rates readable, dates in
  order, t_o different from -100), a unit value of 0 or less ends it with the
  \<open>ValueError\<close> of the unit check. And whatever the other inputs are, either violation
  ends the computation with an exception: no result is produced.
\<close>

theorem C9_input_validation:
  "(edt_cap_planilla f = Numero cap \<and> edt_int_planilla f = Numero intereses \<and>
    dt_corte f \<ge> dt_calculo f \<longrightarrow>
      calcular f = Inl (ValueError FechaCorteNoAnterior)) \<and>
   (edt_cap_planilla f = Numero cap \<and> edt_int_planilla f = Numero intereses \<and>
    dt_corte f < dt_calculo f \<and>
    edt_to f = Numero t_o \<and> edt_tm f = Numero t_m \<and> t_o \<noteq> - 100 \<and>
    edt_uma_calc f = Numero u \<and> u \<le> 0 \<longrightarrow>
      calcular f = Inl (ValueError UmaCalcNoPositiva)) \<and>
   (dt_corte f \<ge> dt_calculo f \<or> (edt_uma_calc f = Numero u \<and> u \<le> 0) \<longrightarrow>
      isl (calcular f))"
proof -
  have a: "edt_cap_planilla f = Numero cap \<and> edt_int_planilla f = Numero intereses \<and>
    dt_corte f \<ge> dt_calculo f \<longrightarrow>
      calcular f = Inl (ValueError FechaCorteNoAnterior)"
    by (simp add: calcular_def luego_def Let_def)
  have b: "edt_cap_planilla f = Numero cap \<and> edt_int_planilla f = Numero intereses \<and>
    dt_corte f < dt_calculo f \<and>
    edt_to f = Numero t_o \<and> edt_tm f = Numero t_m \<and> t_o \<noteq> - 100 \<and>
    edt_uma_calc f = Numero u \<and> u \<le> 0 \<longrightarrow>
      calcular f = Inl (ValueError UmaCalcNoPositiva)"
    by (simp add: calcular_def luego_def Let_def)
  have c1: "dt_corte f \<ge> dt_calculo f \<longrightarrow> isl (calcular f)"
    by (simp add: calcular_def luego_def Let_def split: sum.splits)
  have c2: "edt_uma_calc f = Numero u \<and> u \<le> 0 \<longrightarrow> isl (calcular f)"
    by (simp add: calcular_def luego_def Let_def split: sum.splits)
  show ?thesis
    using a b c1 c2 by blast
qed

theorem C9_input_validation_witness:
  "calcular (ejemplo\<lparr>dt_corte := 739252\<rparr>) = Inl (ValueError FechaCorteNoAnterior) \<and>
   calcular (ejemplo\<lparr>dt_corte := 739253\<rparr>) = Inl (ValueError FechaCorteNoAnterior) \<and>
   calcular (ejemplo\<lparr>edt_uma_calc := Numero 0\<rparr>) = Inl (ValueError UmaCalcNoPositiva) \<and>
   calcular (ejemplo\<lparr>edt_uma_calc := Numero (- 5)\<rparr>) = Inl (ValueError UmaCalcNoPositiva) \<and>
   isl (calcular (ejemplo\<lparr>edt_uma_calc := Numero 0, edt_to := Ilegible\<rparr>))"
  using C9_input_validation [of "ejemplo\<lparr>dt_corte := 739252\<rparr>" 15000000 5000000]
    C9_input_validation [of "ejemplo\<lparr>dt_corte := 739253\<rparr>" 15000000 5000000]
    C9_input_validation [of "ejemplo\<lparr>edt_uma_calc := Numero 0\<rparr>"
      15000000 5000000 "62.15" "74.80" 0]
    C9_input_validation [of "ejemplo\<lparr>edt_uma_calc := Numero (- 5)\<rparr>"
      15000000 5000000 "62.15" "74.80" "- 5"]
    C9_input_validation [of "ejemplo\<lparr>edt_uma_calc := Numero 0, edt_to := Ilegible\<rparr>"
      _ _ _ _ 0]
  by (simp add: ejemplo_def)

text \<open>
  C10: with t_o = -100 the divisor 100 + t_o is zero. With the amounts and t_m readable and
  the dates in order, the computation ends with \<open>ZeroDivisionError\<close>; and whatever the
  other inputs are it ends with an exception, never with a result that holds a factor.
\<close>

theorem C10_zero_divisor:
  "(edt_cap_planilla f = Numero cap \<and> edt_int_planilla f = Numero intereses \<and>
    dt_corte f < dt_calculo f \<and>
    edt_to f = Numero (- 100) \<and> edt_tm f = Numero t_m \<longrightarrow>
      calcular f = Inl ZeroDivisionError) \<and>
   (edt_to f = Numero (- 100) \<longrightarrow> isl (calcular f))"
proof -
  have a: "edt_cap_planilla f = Numero cap \<and> edt_int_planilla f = Numero intereses \<and>
    dt_corte f < dt_calculo f \<and>
    edt_to f = Numero (- 100) \<and> edt_tm f = Numero t_m \<longrightarrow>
      calcular f = Inl ZeroDivisionError"
    by (simp add: calcular_def luego_def Let_def)
  have b: "edt_to f = Numero (- 100) \<longrightarrow> isl (calcular f)"
    by (simp add: calcular_def luego_def Let_def split: sum.splits)
  show ?thesis
    using a b by blast
qed

theorem C10_zero_divisor_witness:
  "calcular (ejemplo\<lparr>edt_to := Numero (- 100)\<rparr>) = Inl ZeroDivisionError"
  using C10_zero_divisor [of "ejemplo\<lparr>edt_to := Numero (- 100)\<rparr>" 15000000 5000000 "74.80"]
  by (simp add: ejemplo_def)

end
